theory Spec2Isabelle
  imports Complex_Main
begin

section \<open>The pull-request reviewer of \<^verbatim>\<open>src/main.ts\<close>\<close>

text \<open>
  The action reads a pull request's diff, drops excluded files, sends one prompt per
  chunk to a completion service, turns the replies into review comments and submits
  them in one review. The functions of \<^verbatim>\<open>main.ts\<close> are embedded below under
  their own names. Promises are awaited one after the other in the source, so the
  embedding is sequential; diagnostic logging has no effect on any result and is left
  out. What the source takes from outside (the JavaScript built-ins, the libraries
  \<^verbatim>\<open>parse-diff\<close> and \<^verbatim>\<open>minimatch\<close>, the hosting API, the completion service) is
  passed in as a parameter.
\<close>

subsection \<open>JavaScript values\<close>

text \<open>
  A JavaScript number is \<^verbatim>\<open>NaN\<close>, an infinity or a finite value; every finite double
  is a rational, and the two zeros are not told apart. Strings are lists of
  characters, one \<^typ>\<open>char\<close> per code unit, so the strings of the model are those
  whose code units are below 256.
\<close>

datatype js_number = NaN | Infinity | NegInfinity | Finite rat

text \<open>The values \<^verbatim>\<open>JSON.parse\<close> can return. An object is the list of its own
  properties, each name once.\<close>

datatype json =
    JNull
  | JBool bool
  | JNum js_number
  | JStr string
  | JArr "json list"
  | JObj "(string \<times> json) list"

text \<open>The exceptions that can travel through \<^verbatim>\<open>main\<close>: a \<^verbatim>\<open>TypeError\<close> of the
  language, and the failures of reading the event file and of the calls to the
  hosting API and the libraries.\<close>

datatype error = TypeError | SyntaxError | RequestError | EventFileError

subsection \<open>The diff as \<^verbatim>\<open>parse-diff\<close> delivers it\<close>

text \<open>
  Modelled from the spec: the typings of \<^verbatim>\<open>parse-diff\<close> are not among the sources.
  By the spec's data model a change carries its content and one or two line numbers,
  old-side and new-side, depending on whether the line is an addition, a deletion or
  a context line. In the library an added line has its number in the new file and a
  deleted line its number in the old file, both under the name \<^verbatim>\<open>ln\<close>; a context
  line has its old-side number \<^verbatim>\<open>ln1\<close> and its new-side number \<^verbatim>\<open>ln2\<close>. This
  is what the comment in \<^verbatim>\<open>createPrompt\<close> refers to: \<^verbatim>\<open>ln\<close> and \<^verbatim>\<open>ln2\<close> exist
  where needed.
\<close>

datatype Change =
    AddChange js_number string
  | DeleteChange js_number string
  | NormalChange js_number js_number string

text \<open>
  The three properties that \<^verbatim>\<open>createPrompt\<close> reads of a change: \<^verbatim>\<open>c.ln\<close>,
  \<^verbatim>\<open>c.ln2\<close> (each \<^verbatim>\<open>undefined\<close> where the change has no such field) and
  \<^verbatim>\<open>c.content\<close>.
\<close>

fun change_ln :: "Change \<Rightarrow> js_number option" where
  "change_ln (AddChange n s) = Some n"
| "change_ln (DeleteChange n s) = Some n"
| "change_ln (NormalChange n1 n2 s) = None"

fun change_ln2 :: "Change \<Rightarrow> js_number option" where
  "change_ln2 (AddChange n s) = None"
| "change_ln2 (DeleteChange n s) = None"
| "change_ln2 (NormalChange n1 n2 s) = Some n2"

fun change_content :: "Change \<Rightarrow> string" where
  "change_content (AddChange n s) = s"
| "change_content (DeleteChange n s) = s"
| "change_content (NormalChange n1 n2 s) = s"

text \<open>
  A chunk has its header line as content. A file's \<^verbatim>\<open>to\<close> is optional in the
  library's typings; a deleted file has \<^verbatim>\<open>to = "/dev/null"\<close>.
\<close>

record Chunk =
  chunk_content :: string
  changes :: "Change list"

record File =
  to :: "string option"
  chunks :: "Chunk list"

subsection \<open>Built-ins and libraries\<close>

text \<open>
  \<^verbatim>\<open>JSON_parse\<close> returns \<open>None\<close> where \<^verbatim>\<open>JSON.parse\<close> throws a \<^verbatim>\<open>SyntaxError\<close>.
  \<^verbatim>\<open>StringToNumber\<close> is \<^verbatim>\<open>Number\<close> applied to a string and \<^verbatim>\<open>NumberToString\<close>
  is the conversion of a number to a string, as in a template literal.
  \<^verbatim>\<open>minimatch\<close> takes the path and the pattern; \<^verbatim>\<open>parseDiff\<close> may throw. The
  statements below are about every platform; where one needs a fact about a built-in
  (what \<^verbatim>\<open>JSON.parse\<close> returns on a given literal), the fact is a hypothesis.
\<close>

record platform =
  JSON_parse :: "string \<Rightarrow> json option"
  StringToNumber :: "string \<Rightarrow> js_number"
  NumberToString :: "js_number \<Rightarrow> string"
  minimatch :: "string \<Rightarrow> string \<Rightarrow> bool"
  parseDiff :: "string \<Rightarrow> error + File list"

text \<open>Truthiness, as tested by \<^verbatim>\<open>if (x)\<close>, \<^verbatim>\<open>!x\<close>, \<^verbatim>\<open>x ? a : b\<close> and \<^verbatim>\<open>x || d\<close>.\<close>

fun number_truthy :: "js_number \<Rightarrow> bool" where
  "number_truthy NaN = False"
| "number_truthy (Finite q) = (q \<noteq> 0)"
| "number_truthy _ = True"

fun truthy :: "json \<Rightarrow> bool" where
  "truthy JNull = False"
| "truthy (JBool b) = b"
| "truthy (JNum n) = number_truthy n"
| "truthy (JStr s) = (s \<noteq> [])"
| "truthy (JArr xs) = True"
| "truthy (JObj kvs) = True"

text \<open>\<^verbatim>\<open>xs.join(sep)\<close> on an array of strings.\<close>

fun join :: "string \<Rightarrow> string list \<Rightarrow> string" where
  "join sep [] = []"
| "join sep [x] = x"
| "join sep (x # y # ys) = x @ sep @ join sep (y # ys)"

text \<open>Collecting results in order, stopping at the first exception.\<close>

fun sequence :: "(error + 'a) list \<Rightarrow> error + 'a list" where
  "sequence [] = Inr []"
| "sequence (r # rs) =
     (case r of
        Inl e \<Rightarrow> Inl e
      | Inr x \<Rightarrow> (case sequence rs of Inl e \<Rightarrow> Inl e | Inr xs \<Rightarrow> Inr (x # xs)))"

text \<open>
  The conversion to a string that \<^verbatim>\<open>"[GPT-REVIEW] " + v\<close> applies to \<open>v\<close>. An array
  is joined with commas, \<^verbatim>\<open>null\<close> elements as empty strings. A plain object gives
  \<^verbatim>\<open>[object Object]\<close>, unless it has an own property \<^verbatim>\<open>toString\<close>, which is data and
  cannot be called: then the conversion throws a \<^verbatim>\<open>TypeError\<close>.
\<close>

fun ToString :: "platform \<Rightarrow> json \<Rightarrow> error + string" where
  "ToString pf JNull = Inr ''null''"
| "ToString pf (JBool b) = Inr (if b then ''true'' else ''false'')"
| "ToString pf (JNum n) = Inr (NumberToString pf n)"
| "ToString pf (JStr s) = Inr s"
| "ToString pf (JArr xs) =
     (case sequence (map (\<lambda>x. if x = JNull then Inr [] else ToString pf x) xs) of
        Inl e \<Rightarrow> Inl e
      | Inr strs \<Rightarrow> Inr (join '','' strs))"
| "ToString pf (JObj kvs) =
     (if ''toString'' \<in> fst ` set kvs then Inl TypeError else Inr ''[object Object]'')"

text \<open>The same for a value that may be \<^verbatim>\<open>undefined\<close> (\<open>None\<close>).\<close>

fun ToString_opt :: "platform \<Rightarrow> json option \<Rightarrow> error + string" where
  "ToString_opt pf None = Inr ''undefined''"
| "ToString_opt pf (Some v) = ToString pf v"

text \<open>\<^verbatim>\<open>Number(v)\<close>: an array or object is converted to a string first.\<close>

fun ToNumber :: "platform \<Rightarrow> json option \<Rightarrow> error + js_number" where
  "ToNumber pf None = Inr NaN"
| "ToNumber pf (Some JNull) = Inr (Finite 0)"
| "ToNumber pf (Some (JBool b)) = Inr (Finite (if b then 1 else 0))"
| "ToNumber pf (Some (JNum n)) = Inr n"
| "ToNumber pf (Some (JStr s)) = Inr (StringToNumber pf s)"
| "ToNumber pf (Some v) =
     (case ToString pf v of Inl e \<Rightarrow> Inl e | Inr s \<Rightarrow> Inr (StringToNumber pf s))"

text \<open>
  Reading the property \<^verbatim>\<open>lineNumber\<close> or \<^verbatim>\<open>reviewComment\<close> of a parsed value. No
  built-in prototype defines either name, so only an object's own properties count;
  on \<^verbatim>\<open>null\<close> the read throws.
\<close>

fun get_property :: "json \<Rightarrow> string \<Rightarrow> error + json option" where
  "get_property JNull k = Inl TypeError"
| "get_property (JObj kvs) k = Inr (map_of kvs k)"
| "get_property _ k = Inr None"

text \<open>\<^verbatim>\<open>s.trim()\<close> and \<^verbatim>\<open>s.split(",")\<close>.\<close>

definition is_space :: "char \<Rightarrow> bool" where
  "is_space c \<longleftrightarrow> c \<in> {CHR 0x09, CHR 0x0A, CHR 0x0B, CHR 0x0C, CHR 0x0D, CHR 0x20, CHR 0xA0}"

definition trim :: "string \<Rightarrow> string" where
  "trim s = rev (dropWhile is_space (rev (dropWhile is_space s)))"

fun split_comma :: "string \<Rightarrow> string list" where
  "split_comma [] = [[]]"
| "split_comma (c # cs) =
     (if c = CHR '','' then [] # split_comma cs
      else (case split_comma cs of [] \<Rightarrow> [[c]] | x # xs \<Rightarrow> (c # x) # xs))"

subsection \<open>Pull-request context\<close>

record PRDetails =
  owner :: string
  repo :: string
  pull_number :: int
  title :: string
  description :: string

text \<open>The fields the source reads from the event file and from the hosting API.\<close>

record event =
  repository_owner_login :: string
  repository_name :: string
  number :: int
  action :: string
  before :: string
  after :: string

record pull_data =
  data_title :: "string option"
  data_body :: "string option"

record comment =
  body :: string
  path :: string
  line :: js_number

record review =
  review_owner :: string
  review_repo :: string
  review_pull_number :: int
  review_comments :: "comment list"
  review_event :: string

text \<open>
  The completion service answers a prompt, given the prompts it has already received.
  The generation settings of the request are constants of the source and its only
  message is the prompt, so a request is identified by its prompt. A call either
  fails or returns a list of choices; a choice's message and the message's content
  may be missing.
\<close>

record choice =
  message_content :: "string option option"

datatype completion = Rejected | Completion "choice list"

type_synonym service = "string list \<Rightarrow> string \<Rightarrow> completion"

text \<open>
  The surroundings of a run: the event file (read and parsed), the action's
  \<^verbatim>\<open>exclude\<close> input, the hosting API and the completion service. An \<open>Inl\<close> is a
  call that throws.
\<close>

record env =
  read_event :: "error + event"
  exclude_input :: string
  pulls_get :: "string \<Rightarrow> string \<Rightarrow> int \<Rightarrow> error + pull_data"
  pulls_get_diff :: "string \<Rightarrow> string \<Rightarrow> int \<Rightarrow> error + string option"
  compareCommits :: "string \<Rightarrow> string \<Rightarrow> string \<Rightarrow> string \<Rightarrow> error + string"
  createReview :: "review \<Rightarrow> error option"
  completions_create :: service

definition nullish_or :: "string option \<Rightarrow> string \<Rightarrow> string" where
  "nullish_or v d = (case v of None \<Rightarrow> d | Some s \<Rightarrow> s)"

definition getPRDetails :: "env \<Rightarrow> error + PRDetails" where
  "getPRDetails e =
     (case read_event e of
        Inl err \<Rightarrow> Inl err
      | Inr ev \<Rightarrow>
          (case pulls_get e (repository_owner_login ev) (repository_name ev) (number ev) of
             Inl err \<Rightarrow> Inl err
           | Inr prResponse \<Rightarrow>
               Inr \<lparr> owner = repository_owner_login ev,
                     repo = repository_name ev,
                     pull_number = number ev,
                     title = nullish_or (data_title prResponse) [],
                     description = nullish_or (data_body prResponse) [] \<rparr>))"

definition getDiff :: "env \<Rightarrow> string \<Rightarrow> string \<Rightarrow> int \<Rightarrow> error + string option" where
  "getDiff e ow rp pn = pulls_get_diff e ow rp pn"

subsection \<open>Prompt Builder\<close>

definition prompt_part1 :: string where
  \<open>prompt_part1 =
     ''Your task is to review pull requests. Instructions:\<newline>'' @
     ''- Provide the response in following JSON format:  [{"lineNumber":  <line_number>, "reviewComment": "<review comment>"}]\<newline>'' @
     ''- Do not give positive comments or compliments.\<newline>'' @
     ''- Provide comments and suggestions ONLY if there is something to improve, otherwise return an empty array.\<newline>'' @
     ''- Write the comment in GitHub Markdown format.\<newline>'' @
     ''- Use the given description only for the overall context and only comment the code.\<newline>'' @
     ''- IMPORTANT: NEVER suggest adding comments to the code.\<newline>'' @
     ''\<newline>'' @
     ''Review the following code diff in the file "''\<close>

definition prompt_part2 :: string where
  \<open>prompt_part2 =
     ''" and take the pull request title and description into account when writing the response.\<newline>'' @
     ''  \<newline>'' @
     ''Pull request title: ''\<close>

definition prompt_part3 :: string where
  \<open>prompt_part3 =
     ''\<newline>'' @
     ''Pull request description:\<newline>'' @
     ''\<newline>'' @
     ''---\<newline>''\<close>

definition prompt_part4 :: string where
  \<open>prompt_part4 =
     ''\<newline>'' @
     ''---\<newline>'' @
     ''\<newline>'' @
     ''Git diff to review:\<newline>'' @
     ''\<newline>'' @
     ''```diff\<newline>''\<close>

definition prompt_part5 :: string where
  \<open>prompt_part5 = ''\<newline>```\<newline>''\<close>

text \<open>A value interpolated into a template literal: \<^verbatim>\<open>undefined\<close> prints its name.\<close>

definition template_string :: "string option \<Rightarrow> string" where
  "template_string v = (case v of None \<Rightarrow> ''undefined'' | Some s \<Rightarrow> s)"

definition template_number :: "platform \<Rightarrow> js_number option \<Rightarrow> string" where
  "template_number pf v = (case v of None \<Rightarrow> ''undefined'' | Some n \<Rightarrow> NumberToString pf n)"

text \<open>\<^verbatim>\<open>c.ln ? c.ln : c.ln2\<close>\<close>

definition change_line_number :: "Change \<Rightarrow> js_number option" where
  "change_line_number c =
     (case change_ln c of
        Some n \<Rightarrow> if number_truthy n then Some n else change_ln2 c
      | None \<Rightarrow> change_ln2 c)"

definition render_change :: "platform \<Rightarrow> Change \<Rightarrow> string" where
  "render_change pf c = template_number pf (change_line_number c) @ '' '' @ change_content c"

definition createPrompt :: "platform \<Rightarrow> File \<Rightarrow> Chunk \<Rightarrow> PRDetails \<Rightarrow> string" where
  "createPrompt pf file chunk prDetails =
     prompt_part1 @ template_string (to file) @
     prompt_part2 @ title prDetails @
     prompt_part3 @ description prDetails @
     prompt_part4 @ chunk_content chunk @ ''\<newline>'' @
     join ''\<newline>'' (map (render_change pf) (changes chunk)) @
     prompt_part5"

subsection \<open>Review Client\<close>

text \<open>
  Everything from the service call to \<^verbatim>\<open>JSON.parse\<close> is inside one \<^verbatim>\<open>try\<close>, whose
  handler returns \<^verbatim>\<open>null\<close>: a failed call, an empty list of choices (reading
  \<^verbatim>\<open>.message\<close> of \<^verbatim>\<open>undefined\<close> throws) and a reply that does not parse all end
  there. The function takes the prompts sent so far and returns them with the new one.
\<close>

definition reply_text :: "choice \<Rightarrow> string" where
  "reply_text ch =
     (case message_content ch of
        Some (Some s) \<Rightarrow> if trim s = [] then ''[]'' else trim s
      | _ \<Rightarrow> ''[]'')"

definition getAIResponse :: "platform \<Rightarrow> service \<Rightarrow> string \<Rightarrow> string list \<Rightarrow> json \<times> string list" where
  "getAIResponse pf svc prompt sent =
     (case svc sent prompt of
        Rejected \<Rightarrow> JNull
      | Completion [] \<Rightarrow> JNull
      | Completion (ch # _) \<Rightarrow>
          (case JSON_parse pf (reply_text ch) of None \<Rightarrow> JNull | Some v \<Rightarrow> v),
      sent @ [prompt])"

subsection \<open>Comment Mapper\<close>

text \<open>
  The callback of \<^verbatim>\<open>flatMap\<close>, for one element of the reply. \<^verbatim>\<open>!file.to\<close> holds
  for a missing and for an empty path; then nothing of the element is read.
\<close>

definition comment_of :: "platform \<Rightarrow> File \<Rightarrow> json \<Rightarrow> error + comment list" where
  "comment_of pf file aiResponse =
     (case to file of
        None \<Rightarrow> Inr []
      | Some p \<Rightarrow>
          if p = [] then Inr []
          else
            (case get_property aiResponse ''reviewComment'' of
               Inl e \<Rightarrow> Inl e
             | Inr rc \<Rightarrow>
                 (case ToString_opt pf rc of
                    Inl e \<Rightarrow> Inl e
                  | Inr text \<Rightarrow>
                      (case get_property aiResponse ''lineNumber'' of
                         Inl e \<Rightarrow> Inl e
                       | Inr num \<Rightarrow>
                           (case ToNumber pf num of
                              Inl e \<Rightarrow> Inl e
                            | Inr n \<Rightarrow>
                                Inr [\<lparr> body = ''[GPT-REVIEW] '' @ text,
                                       path = p,
                                       line = n \<rparr>])))))"

fun flatMap :: "('a \<Rightarrow> error + 'b list) \<Rightarrow> 'a list \<Rightarrow> error + 'b list" where
  "flatMap f [] = Inr []"
| "flatMap f (x # xs) =
     (case f x of
        Inl e \<Rightarrow> Inl e
      | Inr ys \<Rightarrow> (case flatMap f xs of Inl e \<Rightarrow> Inl e | Inr zs \<Rightarrow> Inr (ys @ zs)))"

text \<open>Only an array has \<^verbatim>\<open>flatMap\<close>; calling it on anything else throws.\<close>

fun createComment :: "platform \<Rightarrow> File \<Rightarrow> Chunk \<Rightarrow> json \<Rightarrow> error + comment list" where
  "createComment pf file chunk (JArr aiResponses) = flatMap (comment_of pf file) aiResponses"
| "createComment pf file chunk _ = Inl TypeError"

subsection \<open>Analysis\<close>

text \<open>
  The loops of \<^verbatim>\<open>analyzeCode\<close>. The state is the comment accumulator and the list of
  prompts sent; an exception ends the loops and keeps the prompts sent so far.
\<close>

fun analyze_chunks ::
  "platform \<Rightarrow> service \<Rightarrow> PRDetails \<Rightarrow> File \<Rightarrow> Chunk list \<Rightarrow> comment list \<Rightarrow> string list
    \<Rightarrow> (error + comment list) \<times> string list" where
  "analyze_chunks pf svc prDetails file [] comments sent = (Inr comments, sent)"
| "analyze_chunks pf svc prDetails file (chunk # rest) comments sent =
     (let prompt = createPrompt pf file chunk prDetails;
          (aiResponse, sent') = getAIResponse pf svc prompt sent
      in if truthy aiResponse then
           (case createComment pf file chunk aiResponse of
              Inl e \<Rightarrow> (Inl e, sent')
            | Inr newComments \<Rightarrow>
                analyze_chunks pf svc prDetails file rest (comments @ newComments) sent')
         else analyze_chunks pf svc prDetails file rest comments sent')"

fun analyze_files ::
  "platform \<Rightarrow> service \<Rightarrow> PRDetails \<Rightarrow> File list \<Rightarrow> comment list \<Rightarrow> string list
    \<Rightarrow> (error + comment list) \<times> string list" where
  "analyze_files pf svc prDetails [] comments sent = (Inr comments, sent)"
| "analyze_files pf svc prDetails (file # rest) comments sent =
     (if to file = Some ''/dev/null'' then analyze_files pf svc prDetails rest comments sent
      else
        (case analyze_chunks pf svc prDetails file (chunks file) comments sent of
           (Inl e, sent') \<Rightarrow> (Inl e, sent')
         | (Inr comments', sent') \<Rightarrow> analyze_files pf svc prDetails rest comments' sent'))"

definition analyzeCode ::
  "platform \<Rightarrow> service \<Rightarrow> File list \<Rightarrow> PRDetails \<Rightarrow> (error + comment list) \<times> string list" where
  "analyzeCode pf svc parsedDiff prDetails = analyze_files pf svc prDetails parsedDiff [] []"

subsection \<open>Orchestrator\<close>

text \<open>
  \<^verbatim>\<open>createReviewComment\<close> makes the one call that writes to the pull request. The
  list of review requests made so far is threaded through it.
\<close>

definition createReviewComment ::
  "env \<Rightarrow> string \<Rightarrow> string \<Rightarrow> int \<Rightarrow> comment list \<Rightarrow> review list \<Rightarrow> error option \<times> review list" where
  "createReviewComment e ow rp pn comments submitted =
     (let request = \<lparr> review_owner = ow, review_repo = rp, review_pull_number = pn,
                       review_comments = comments, review_event = ''COMMENT'' \<rparr>
      in (createReview e request, submitted @ [request]))"

text \<open>What a run leaves behind: the exception it ended with, if any, the review
  requests made and the prompts sent.\<close>

record run =
  outcome :: "error option"
  submitted :: "review list"
  prompts :: "string list"

definition excludePatterns :: "env \<Rightarrow> string list" where
  "excludePatterns e = map trim (split_comma (exclude_input e))"

definition filteredDiff :: "platform \<Rightarrow> string list \<Rightarrow> File list \<Rightarrow> File list" where
  "filteredDiff pf patterns parsedDiff =
     filter (\<lambda>file. \<not> list_ex (\<lambda>pattern. minimatch pf (nullish_or (to file) []) pattern) patterns)
       parsedDiff"

text \<open>
  The first part of \<^verbatim>\<open>main\<close>, up to the call of \<^verbatim>\<open>analyzeCode\<close>: either the run
  has ended (an exception, an unsupported event, no diff), or analysis has returned
  its comments.
\<close>

datatype stage = Ended run | Analyzed PRDetails "comment list" "string list"

datatype fetched = Unsupported | Diff "string option"

definition fetch_diff :: "env \<Rightarrow> PRDetails \<Rightarrow> event \<Rightarrow> error + fetched" where
  "fetch_diff e prDetails eventData =
     (if action eventData = ''opened'' then
        (case getDiff e (owner prDetails) (repo prDetails) (pull_number prDetails) of
           Inl err \<Rightarrow> Inl err
         | Inr diff \<Rightarrow> Inr (Diff diff))
      else if action eventData = ''synchronize'' then
        (case compareCommits e (owner prDetails) (repo prDetails)
                (before eventData) (after eventData) of
           Inl err \<Rightarrow> Inl err
         | Inr diff \<Rightarrow> Inr (Diff (Some diff)))
      else Inr Unsupported)"

definition thrown :: "error \<Rightarrow> string list \<Rightarrow> run" where
  "thrown err sent = \<lparr> outcome = Some err, submitted = [], prompts = sent \<rparr>"

definition returned :: "string list \<Rightarrow> run" where
  "returned sent = \<lparr> outcome = None, submitted = [], prompts = sent \<rparr>"

definition analysis :: "platform \<Rightarrow> env \<Rightarrow> stage" where
  "analysis pf e =
     (case getPRDetails e of
        Inl err \<Rightarrow> Ended (thrown err [])
      | Inr prDetails \<Rightarrow>
          (case read_event e of
             Inl err \<Rightarrow> Ended (thrown err [])
           | Inr eventData \<Rightarrow>
               (case fetch_diff e prDetails eventData of
                  Inl err \<Rightarrow> Ended (thrown err [])
                | Inr Unsupported \<Rightarrow> Ended (returned [])
                | Inr (Diff None) \<Rightarrow> Ended (returned [])
                | Inr (Diff (Some diff)) \<Rightarrow>
                    (if diff = [] then Ended (returned [])
                     else
                       (case parseDiff pf diff of
                          Inl err \<Rightarrow> Ended (thrown err [])
                        | Inr parsedDiff \<Rightarrow>
                            (case analyzeCode pf (completions_create e)
                                    (filteredDiff pf (excludePatterns e) parsedDiff)
                                    prDetails of
                               (Inl err, sent) \<Rightarrow> Ended (thrown err sent)
                             | (Inr comments, sent) \<Rightarrow>
                                 Analyzed prDetails comments sent))))))"

definition main :: "platform \<Rightarrow> env \<Rightarrow> run" where
  "main pf e =
     (case analysis pf e of
        Ended r \<Rightarrow> r
      | Analyzed prDetails comments sent \<Rightarrow>
          (if length comments > 0 then
             (case createReviewComment e (owner prDetails) (repo prDetails)
                     (pull_number prDetails) comments [] of
                (res, reviews) \<Rightarrow> \<lparr> outcome = res, submitted = reviews, prompts = sent \<rparr>)
           else returned sent))"

subsection \<open>Notions used in the statements\<close>

text \<open>
  The text and the line number that \<^verbatim>\<open>createComment\<close> takes from one suggestion:
  \<^verbatim>\<open>aiResponse.reviewComment\<close> as a string and \<^verbatim>\<open>Number(aiResponse.lineNumber)\<close>.
\<close>

definition reviewComment_text :: "platform \<Rightarrow> json \<Rightarrow> error + string" where
  "reviewComment_text pf item =
     (case get_property item ''reviewComment'' of Inl e \<Rightarrow> Inl e | Inr v \<Rightarrow> ToString_opt pf v)"

definition lineNumber_value :: "platform \<Rightarrow> json \<Rightarrow> error + js_number" where
  "lineNumber_value pf item =
     (case get_property item ''lineNumber'' of Inl e \<Rightarrow> Inl e | Inr v \<Rightarrow> ToNumber pf v)"

text \<open>A suggestion of a file: an element of the array that the Review Client returned
  for one of the file's chunks.\<close>

definition suggestion_of :: "platform \<Rightarrow> service \<Rightarrow> PRDetails \<Rightarrow> File \<Rightarrow> json \<Rightarrow> bool" where
  "suggestion_of pf svc prDetails file item \<longleftrightarrow>
     (\<exists>chunk \<in> set (chunks file). \<exists>sent items.
        fst (getAIResponse pf svc (createPrompt pf file chunk prDetails) sent) = JArr items \<and>
        item \<in> set items)"


subsection \<open>Sample inputs\<close>

text \<open>
  A platform for the examples below. Each function is a short table whose entries
  are what JavaScript and the libraries compute on those inputs: \<^verbatim>\<open>JSON.parse\<close>
  on five replies, \<^verbatim>\<open>Number\<close> on three strings, the printing of five numbers,
  \<^verbatim>\<open>minimatch\<close> on one path and pattern, and \<^verbatim>\<open>parseDiff\<close> on one diff. Outside
  its entries a table returns a default (no parse, \<^verbatim>\<open>NaN\<close>, no match, no file).
  The examples reach a default only where JavaScript agrees with it: the prose reply
  \<^verbatim>\<open>Looks good to me!\<close> is not JSON, \<^verbatim>\<open>src/a.ts\<close> matches neither exclude pattern
  of the sample run, and \<^verbatim>\<open>x.md\<close> does not match \<^verbatim>\<open>**/*.json\<close>.
\<close>

definition reply_fix :: string where
  \<open>reply_fix = ''[{"lineNumber":"12","reviewComment":"fix this"}]''\<close>

definition reply_negative :: string where
  \<open>reply_negative = ''[{"lineNumber":"-3","reviewComment":"fix this"}]''\<close>

definition reply_two :: string where
  \<open>reply_two =
     ''[{"lineNumber":"12","reviewComment":"fix this"},{"lineNumber":"5","reviewComment":"and this"}]''\<close>

definition suggestion_fix :: json where
  "suggestion_fix = JObj [(''lineNumber'', JStr ''12''), (''reviewComment'', JStr ''fix this'')]"

definition suggestion_negative :: json where
  "suggestion_negative = JObj [(''lineNumber'', JStr ''-3''), (''reviewComment'', JStr ''fix this'')]"

definition suggestion_and :: json where
  "suggestion_and = JObj [(''lineNumber'', JStr ''5''), (''reviewComment'', JStr ''and this'')]"

definition sample_JSON_parse :: "string \<Rightarrow> json option" where
  "sample_JSON_parse s =
     (if s = ''[]'' then Some (JArr [])
      else if s = ''{}'' then Some (JObj [])
      else if s = reply_fix then Some (JArr [suggestion_fix])
      else if s = reply_negative then Some (JArr [suggestion_negative])
      else if s = reply_two then Some (JArr [suggestion_fix, suggestion_and])
      else None)"

definition sample_StringToNumber :: "string \<Rightarrow> js_number" where
  "sample_StringToNumber s =
     (if s = ''12'' then Finite 12 else if s = ''-3'' then Finite (- 3)
      else if s = ''5'' then Finite 5 else NaN)"

definition sample_NumberToString :: "js_number \<Rightarrow> string" where
  "sample_NumberToString n =
     (if n = Finite 3 then ''3'' else if n = Finite 4 then ''4''
      else if n = Finite 5 then ''5'' else if n = Finite 12 then ''12''
      else if n = Finite 20 then ''20'' else ''NaN'')"

definition sample_diff :: string where
  "sample_diff =
     ''diff --git a/x.md b/x.md\<newline>'' @
     ''--- a/x.md\<newline>'' @
     ''+++ b/x.md\<newline>'' @
     ''@@ -4,0 +5 @@\<newline>'' @
     ''+const a = 1;\<newline>'' @
     ''diff --git a/src/a.ts b/src/a.ts\<newline>'' @
     ''--- a/src/a.ts\<newline>'' @
     ''+++ b/src/a.ts\<newline>'' @
     ''@@ -4,0 +5 @@\<newline>'' @
     ''+const a = 1;\<newline>''"

definition sample_chunk :: Chunk where
  "sample_chunk =
     \<lparr> chunk_content = ''@@ -4,0 +5 @@'',
       changes = [AddChange (Finite 5) ''+const a = 1;''] \<rparr>"

definition file_a :: File where
  "file_a = \<lparr> to = Some ''src/a.ts'', chunks = [sample_chunk] \<rparr>"

definition file_x_md :: File where
  "file_x_md = \<lparr> to = Some ''x.md'', chunks = [sample_chunk] \<rparr>"

definition file_deleted :: File where
  "file_deleted = \<lparr> to = Some ''/dev/null'', chunks = [sample_chunk] \<rparr>"

definition sample_platform :: platform where
  "sample_platform =
     \<lparr> JSON_parse = sample_JSON_parse,
       StringToNumber = sample_StringToNumber,
       NumberToString = sample_NumberToString,
       minimatch = (\<lambda>p pattern. p = ''x.md'' \<and> pattern = ''**/*.md''),
       parseDiff = (\<lambda>diff. Inr (if diff = sample_diff then [file_x_md, file_a] else [])) \<rparr>"

definition sample_pr :: PRDetails where
  "sample_pr =
     \<lparr> owner = ''octo'', repo = ''demo'', pull_number = 7,
       title = ''Add a'', description = [] \<rparr>"

text \<open>A service that gives every prompt the same reply, and one whose calls fail.\<close>

definition replying :: "string \<Rightarrow> service" where
  "replying r = (\<lambda>sent prompt. Completion [\<lparr> message_content = Some (Some r) \<rparr>])"

definition failing :: service where
  "failing = (\<lambda>sent prompt. Rejected)"

definition sample_event :: event where
  "sample_event =
     \<lparr> repository_owner_login = ''octo'', repository_name = ''demo'', number = 7,
       action = ''opened'', before = ''aaa'', after = ''bbb'' \<rparr>"

definition sample_env :: "service \<Rightarrow> env" where
  "sample_env svc =
     \<lparr> read_event = Inr sample_event,
       exclude_input = ''**/*.json, **/*.md'',
       pulls_get = (\<lambda>ow rp pn. Inr \<lparr> data_title = Some ''Add a'', data_body = None \<rparr>),
       pulls_get_diff = (\<lambda>ow rp pn. Inr (Some sample_diff)),
       compareCommits = (\<lambda>ow rp base head. Inr sample_diff),
       createReview = (\<lambda>request. None),
       completions_create = svc \<rparr>"

text \<open>
  The replies that the Review Client replaces: a reply without text (no message, no
  content, or only white space) and a reply that \<^verbatim>\<open>JSON.parse\<close> rejects; and the
  outcomes of a service call that are recovered: a failed call, no choice at all, or
  a first choice with such a reply.
\<close>

definition reply_empty :: "choice \<Rightarrow> bool" where
  "reply_empty ch \<longleftrightarrow>
     (case message_content ch of Some (Some s) \<Rightarrow> trim s = [] | _ \<Rightarrow> True)"

definition reply_unparseable :: "platform \<Rightarrow> choice \<Rightarrow> bool" where
  "reply_unparseable pf ch \<longleftrightarrow>
     (case message_content ch of
        Some (Some s) \<Rightarrow> trim s \<noteq> [] \<and> JSON_parse pf (trim s) = None
      | _ \<Rightarrow> False)"

definition recovered :: "platform \<Rightarrow> completion \<Rightarrow> bool" where
  "recovered pf r \<longleftrightarrow>
     (case r of
        Rejected \<Rightarrow> True
      | Completion [] \<Rightarrow> True
      | Completion (ch # _) \<Rightarrow> reply_empty ch \<or> reply_unparseable pf ch)"

text \<open>
  The prompts that analysis sends for a list of chunks of a file and for a list of
  files, in order, when no exception ends it.
\<close>

definition chunk_prompts :: "platform \<Rightarrow> PRDetails \<Rightarrow> File \<Rightarrow> Chunk list \<Rightarrow> string list" where
  "chunk_prompts pf prDetails file cs = map (\<lambda>chunk. createPrompt pf file chunk prDetails) cs"

definition prompts_of :: "platform \<Rightarrow> PRDetails \<Rightarrow> File list \<Rightarrow> string list" where
  "prompts_of pf prDetails files =
     concat (map (\<lambda>file. if to file = Some ''/dev/null'' then []
                          else chunk_prompts pf prDetails file (chunks file)) files)"

text \<open>
  A run without one chunk makes one call less, so the calls after it reach the
  service with a shorter history. \<open>without_call k p svc\<close> is the service that gives
  every call of the shorter run the answer that \<open>svc\<close> gives the same call in the
  run with the chunk, where the call with prompt \<open>p\<close> comes after the first \<open>k\<close>
  calls: it puts \<open>p\<close> back into the history at that place.
\<close>

definition insert_call :: "nat \<Rightarrow> string \<Rightarrow> string list \<Rightarrow> string list" where
  "insert_call k p sent = take k sent @ p # drop k sent"

definition without_call :: "nat \<Rightarrow> string \<Rightarrow> service \<Rightarrow> service" where
  "without_call k p svc =
     (\<lambda>sent prompt.
        if k \<le> length sent then svc (insert_call k p sent) prompt
        else svc sent prompt)"

text \<open>A service whose answer depends on the prompt alone, not on the calls before it.\<close>

definition history_free :: "service \<Rightarrow> bool" where
  "history_free svc \<longleftrightarrow> (\<forall>sent prompt. svc sent prompt = svc [] prompt)"

text \<open>A second chunk, and a service whose first call fails and whose later calls
  answer \<open>reply_fix\<close>.\<close>

definition other_chunk :: Chunk where
  "other_chunk =
     \<lparr> chunk_content = ''@@ -20 +19,0 @@'',
       changes = [DeleteChange (Finite 20) ''-let b;''] \<rparr>"

definition failing_once :: service where
  "failing_once =
     (\<lambda>sent prompt.
        if sent = [] then Rejected
        else Completion [\<lparr> message_content = Some (Some reply_fix) \<rparr>])"

text \<open>
  The two sides of a change, and the line number as the specification words it: the
  old-side number when the change has one, the new-side number otherwise.
\<close>

fun old_side :: "Change \<Rightarrow> js_number option" where
  "old_side (AddChange n s) = None"
| "old_side (DeleteChange n s) = Some n"
| "old_side (NormalChange n1 n2 s) = Some n1"

fun new_side :: "Change \<Rightarrow> js_number option" where
  "new_side (AddChange n s) = Some n"
| "new_side (DeleteChange n s) = None"
| "new_side (NormalChange n1 n2 s) = Some n2"

definition claimed_line_number :: "Change \<Rightarrow> js_number option" where
  "claimed_line_number c = (case old_side c of Some n \<Rightarrow> Some n | None \<Rightarrow> new_side c)"

text \<open>The number that the source prints for a change whose own number is not 0: the
  number of an added or deleted line, the new-side number of a context line.\<close>

fun shown_number :: "Change \<Rightarrow> js_number" where
  "shown_number (AddChange n s) = n"
| "shown_number (DeleteChange n s) = n"
| "shown_number (NormalChange n1 n2 s) = n2"

text \<open>A chunk of a context line, line 3 of the old and line 4 of the new file, and an
  added line.\<close>

definition context_change :: Change where
  "context_change = NormalChange (Finite 3) (Finite 4) ''  return a;''"

definition context_chunk :: Chunk where
  "context_chunk =
     \<lparr> chunk_content = ''@@ -3 +4,2 @@'',
       changes = [context_change, AddChange (Finite 5) ''+  return b;''] \<rparr>"

section \<open>Properties\<close>

subsection \<open>Where a comment comes from\<close>

lemma comment_of_Inr:
  assumes "comment_of pf file item = Inr cs"
  shows "cs = [] \<or>
         (\<exists>p t n. to file = Some p \<and> p \<noteq> [] \<and>
             reviewComment_text pf item = Inr t \<and>
             lineNumber_value pf item = Inr n \<and>
             cs = [\<lparr> body = ''[GPT-REVIEW] '' @ t, path = p, line = n \<rparr>])"
  using assms
  by (auto simp: comment_of_def reviewComment_text_def lineNumber_value_def
           split: option.splits if_splits sum.splits)

text \<open>For a suggestion of the expected shape, the text is its \<^verbatim>\<open>reviewComment\<close> and
  the line is \<^verbatim>\<open>Number\<close> of its \<^verbatim>\<open>lineNumber\<close>.\<close>

lemma reviewComment_text_string:
  "map_of kvs ''reviewComment'' = Some (JStr s) \<Longrightarrow> reviewComment_text pf (JObj kvs) = Inr s"
  by (simp add: reviewComment_text_def)

lemma lineNumber_value_string:
  "map_of kvs ''lineNumber'' = Some (JStr l) \<Longrightarrow>
   lineNumber_value pf (JObj kvs) = Inr (StringToNumber pf l)"
  by (simp add: lineNumber_value_def)

lemma flatMap_member:
  assumes "flatMap f xs = Inr ys" and "y \<in> set ys"
  shows "\<exists>x \<in> set xs. \<exists>zs. f x = Inr zs \<and> y \<in> set zs"
  using assms
proof (induction xs arbitrary: ys)
  case Nil
  then show ?case by simp
next
  case (Cons x xs)
  then show ?case by (fastforce split: sum.splits)
qed

lemma createComment_member:
  assumes "createComment pf file chunk v = Inr cs" and "c \<in> set cs"
  shows "\<exists>items. v = JArr items \<and> (\<exists>item \<in> set items. comment_of pf file item = Inr [c])"
proof (cases v)
  case (JArr items)
  with assms obtain item zs
    where i: "item \<in> set items" "comment_of pf file item = Inr zs" "c \<in> set zs"
    using flatMap_member[of "comment_of pf file" items cs c] by auto
  from comment_of_Inr[OF i(2)] i(3) have "zs = [c]" by auto
  with i JArr show ?thesis by blast
qed (use assms in auto)

lemma analyze_chunks_origin:
  assumes "analyze_chunks pf svc pr file cs acc sent = (Inr out, sent')" and "c \<in> set out"
  shows "c \<in> set acc \<or>
         (\<exists>chunk \<in> set cs. \<exists>sent0 items.
            fst (getAIResponse pf svc (createPrompt pf file chunk pr) sent0) = JArr items \<and>
            (\<exists>item \<in> set items. comment_of pf file item = Inr [c]))"
  using assms
proof (induction cs arbitrary: acc sent)
  case Nil
  then show ?case by simp
next
  case (Cons chunk rest)
  obtain v s1 where g: "getAIResponse pf svc (createPrompt pf file chunk pr) sent = (v, s1)"
    by (cases "getAIResponse pf svc (createPrompt pf file chunk pr) sent")
  show ?case
  proof (cases "truthy v")
    case False
    with Cons.prems g have "analyze_chunks pf svc pr file rest acc s1 = (Inr out, sent')"
      by simp
    from Cons.IH[OF this Cons.prems(2)] show ?thesis by auto
  next
    case True
    with Cons.prems g obtain new where n: "createComment pf file chunk v = Inr new"
      and r: "analyze_chunks pf svc pr file rest (acc @ new) s1 = (Inr out, sent')"
      by (auto split: sum.splits)
    from Cons.IH[OF r Cons.prems(2)] consider "c \<in> set acc" | "c \<in> set new"
      | "\<exists>chunk \<in> set rest. \<exists>sent0 items.
            fst (getAIResponse pf svc (createPrompt pf file chunk pr) sent0) = JArr items \<and>
            (\<exists>item \<in> set items. comment_of pf file item = Inr [c])"
      by auto
    then show ?thesis
    proof cases
      case 2
      from createComment_member[OF n 2] obtain items item where
        "v = JArr items" "item \<in> set items" "comment_of pf file item = Inr [c]" by blast
      moreover from g have "fst (getAIResponse pf svc (createPrompt pf file chunk pr) sent) = v"
        by simp
      ultimately have "\<exists>sent0 items.
            fst (getAIResponse pf svc (createPrompt pf file chunk pr) sent0) = JArr items \<and>
            (\<exists>item \<in> set items. comment_of pf file item = Inr [c])" by blast
      then show ?thesis by simp
    qed auto
  qed
qed

lemma analyze_files_origin:
  assumes "analyze_files pf svc pr files acc sent = (Inr out, sent')" and "c \<in> set out"
  shows "c \<in> set acc \<or>
         (\<exists>file \<in> set files. to file \<noteq> Some ''/dev/null'' \<and>
            (\<exists>item. suggestion_of pf svc pr file item \<and> comment_of pf file item = Inr [c]))"
  using assms
proof (induction files arbitrary: acc sent)
  case Nil
  then show ?case by simp
next
  case (Cons fl rest)
  show ?case
  proof (cases "to fl = Some ''/dev/null''")
    case True
    with Cons.prems have "analyze_files pf svc pr rest acc sent = (Inr out, sent')" by simp
    from Cons.IH[OF this Cons.prems(2)] show ?thesis by auto
  next
    case False
    with Cons.prems obtain mid s1 where
      m: "analyze_chunks pf svc pr fl (chunks fl) acc sent = (Inr mid, s1)" and
      r: "analyze_files pf svc pr rest mid s1 = (Inr out, sent')"
      by (auto split: prod.splits sum.splits)
    from Cons.IH[OF r Cons.prems(2)] consider "c \<in> set mid"
      | "\<exists>file \<in> set rest. to file \<noteq> Some ''/dev/null'' \<and>
            (\<exists>item. suggestion_of pf svc pr file item \<and> comment_of pf file item = Inr [c])"
      by auto
    then show ?thesis
    proof cases
      case 1
      from analyze_chunks_origin[OF m 1] False show ?thesis
        unfolding suggestion_of_def by (simp, blast)
    qed auto
  qed
qed

lemma analyzeCode_origin:
  assumes "analyzeCode pf svc files pr = (Inr out, sent')" and "c \<in> set out"
  shows "\<exists>file \<in> set files. to file \<noteq> Some ''/dev/null'' \<and>
            (\<exists>item. suggestion_of pf svc pr file item \<and> comment_of pf file item = Inr [c])"
  using analyze_files_origin[of pf svc pr files "[]" "[]" out sent' c] assms
  by (simp add: analyzeCode_def)

lemma comment_of_with_path:
  assumes "to file = Some p" and "p \<noteq> []" and "comment_of pf file item = Inr zs"
  shows "\<exists>t n. reviewComment_text pf item = Inr t \<and> lineNumber_value pf item = Inr n \<and>
           zs = [\<lparr> body = ''[GPT-REVIEW] '' @ t, path = p, line = n \<rparr>]"
  using assms
  by (auto simp: comment_of_def reviewComment_text_def lineNumber_value_def split: sum.splits)

lemma flatMap_each:
  assumes "flatMap f xs = Inr ys" and "\<And>x zs. f x = Inr zs \<Longrightarrow> \<exists>z. zs = [z] \<and> P x z"
  shows "list_all2 P xs ys"
  using assms(1)
proof (induction xs arbitrary: ys)
  case Nil
  then show ?case by simp
next
  case (Cons x xs)
  from Cons.prems obtain zs rest where f: "f x = Inr zs" and r: "flatMap f xs = Inr rest"
    and y: "ys = zs @ rest" by (auto split: sum.splits)
  from assms(2)[OF f] obtain z where "zs = [z]" "P x z" by blast
  with Cons.IH[OF r] y show ?case by simp
qed

subsection \<open>The sample run\<close>

lemma sample_run_fix:
  "analyzeCode sample_platform (replying reply_fix) [file_a] sample_pr =
     (Inr [\<lparr> body = ''[GPT-REVIEW] fix this'', path = ''src/a.ts'', line = Finite 12 \<rparr>],
      [createPrompt sample_platform file_a sample_chunk sample_pr])"
  by (simp add: analyzeCode_def file_a_def getAIResponse_def replying_def reply_text_def
        trim_def is_space_def reply_fix_def sample_platform_def sample_JSON_parse_def
        suggestion_fix_def comment_of_def sample_StringToNumber_def)

subsection \<open>Comment Mapper\<close>

text \<open>
  C3. When \<^verbatim>\<open>JSON.parse\<close> and \<^verbatim>\<open>Number\<close> do on the literals of the example what
  JavaScript does, the reply
  \<^verbatim>\<open>[{"lineNumber":"12","reviewComment":"fix this"}]\<close> for the one chunk of a file
  with target path \<^verbatim>\<open>src/a.ts\<close> gives exactly one comment, with body
  \<^verbatim>\<open>[GPT-REVIEW] fix this\<close>, path \<^verbatim>\<open>src/a.ts\<close> and line 12.
\<close>

theorem C3_round_trip:
  assumes parse: \<open>JSON_parse pf ''[{"lineNumber":"12","reviewComment":"fix this"}]'' =
            Some (JArr [JObj [(''lineNumber'', JStr ''12''), (''reviewComment'', JStr ''fix this'')]])\<close>
    and num: "StringToNumber pf ''12'' = Finite 12"
    and fl: "to file = Some ''src/a.ts''" "chunks file = [chunk]"
    and reply: \<open>svc [] (createPrompt pf file chunk prDetails) =
            Completion [\<lparr> message_content = Some (Some ''[{"lineNumber":"12","reviewComment":"fix this"}]'') \<rparr>]\<close>
  shows "fst (analyzeCode pf svc [file] prDetails) =
           Inr [\<lparr> body = ''[GPT-REVIEW] fix this'', path = ''src/a.ts'', line = Finite 12 \<rparr>]"
proof -
  have t: \<open>reply_text \<lparr> message_content = Some (Some ''[{"lineNumber":"12","reviewComment":"fix this"}]'') \<rparr>
        = ''[{"lineNumber":"12","reviewComment":"fix this"}]''\<close>
    by (simp add: reply_text_def trim_def is_space_def)
  have g: "getAIResponse pf svc (createPrompt pf file chunk prDetails) [] =
        (JArr [JObj [(''lineNumber'', JStr ''12''), (''reviewComment'', JStr ''fix this'')]],
         [createPrompt pf file chunk prDetails])"
    by (simp add: getAIResponse_def reply t parse)
  have c: "comment_of pf file (JObj [(''lineNumber'', JStr ''12''), (''reviewComment'', JStr ''fix this'')])
       = Inr [\<lparr> body = ''[GPT-REVIEW] fix this'', path = ''src/a.ts'', line = Finite 12 \<rparr>]"
    using fl(1) num by (simp add: comment_of_def)
  show ?thesis
    using fl(1) by (simp add: analyzeCode_def fl(2) g c)
qed

theorem C3_round_trip_witness:
  "to file_a = Some ''src/a.ts'' \<and> chunks file_a = [sample_chunk] \<and>
   fst (analyzeCode sample_platform (replying reply_fix) [file_a] sample_pr) =
     Inr [\<lparr> body = ''[GPT-REVIEW] fix this'', path = ''src/a.ts'', line = Finite 12 \<rparr>]"
  using C3_round_trip[of sample_platform file_a sample_chunk "replying reply_fix" sample_pr]
  by (simp add: sample_platform_def sample_JSON_parse_def sample_StringToNumber_def
        reply_fix_def suggestion_fix_def file_a_def replying_def)

lemma analyze_chunks_array:
  assumes "getAIResponse pf svc (createPrompt pf file chunk pr) sent = (JArr items, sent')"
    and "createComment pf file chunk (JArr items) = Inr cs"
  shows "analyze_chunks pf svc pr file (chunk # rest) comments sent =
         analyze_chunks pf svc pr file rest (comments @ cs) sent'"
  using assms by simp

lemma sample_response_two:
  "getAIResponse sample_platform (replying reply_two)
     (createPrompt sample_platform file_a sample_chunk sample_pr) [] =
   (JArr [suggestion_fix, suggestion_and],
    [createPrompt sample_platform file_a sample_chunk sample_pr])"
  by (simp add: getAIResponse_def replying_def reply_text_def trim_def is_space_def
        sample_platform_def sample_JSON_parse_def reply_two_def reply_fix_def reply_negative_def)

lemma sample_comments_two:
  "createComment sample_platform file_a sample_chunk (JArr [suggestion_fix, suggestion_and]) =
     Inr [\<lparr> body = ''[GPT-REVIEW] fix this'', path = ''src/a.ts'', line = Finite 12 \<rparr>,
          \<lparr> body = ''[GPT-REVIEW] and this'', path = ''src/a.ts'', line = Finite 5 \<rparr>]"
  by (simp add: comment_of_def file_a_def suggestion_fix_def suggestion_and_def
        sample_platform_def sample_StringToNumber_def)

text \<open>
  C10. When the Review Client returns an array for a chunk of a file with a path and
  the mapping of that array raises no exception, the mapping gives one comment for
  each suggestion, in order, with the prefix \<^verbatim>\<open>[GPT-REVIEW] \<close> followed by the text of
  that suggestion's \<^verbatim>\<open>reviewComment\<close> as body, and analysis goes on with exactly
  these comments appended to the accumulator. Conversely, every comment that
  analysis returns has such a body, of a suggestion returned for a chunk of one of
  the files.
\<close>

theorem C10_body_prefix:
  assumes "to file = Some p" and "p \<noteq> []"
    and "getAIResponse pf svc (createPrompt pf file chunk prDetails) sent = (JArr items, sent')"
    and "createComment pf file chunk (JArr items) = Inr cs"
  shows "list_all2 (\<lambda>item c. \<exists>t. reviewComment_text pf item = Inr t \<and>
                                  body c = ''[GPT-REVIEW] '' @ t) items cs \<and>
         analyze_chunks pf svc prDetails file (chunk # rest) comments sent =
           analyze_chunks pf svc prDetails file rest (comments @ cs) sent' \<and>
         (analyzeCode pf svc files prDetails = (Inr out, s) \<and> c \<in> set out \<longrightarrow>
            (\<exists>file \<in> set files. \<exists>item t.
               suggestion_of pf svc prDetails file item \<and>
               reviewComment_text pf item = Inr t \<and>
               body c = ''[GPT-REVIEW] '' @ t))"
proof (intro conjI impI)
  have "\<exists>z. zs = [z] \<and> (\<exists>t. reviewComment_text pf item = Inr t \<and> body z = ''[GPT-REVIEW] '' @ t)"
    if "comment_of pf file item = Inr zs" for item zs
    using comment_of_with_path[OF assms(1,2) that] by auto
  with assms(4) show "list_all2 (\<lambda>item c. \<exists>t. reviewComment_text pf item = Inr t \<and>
                                  body c = ''[GPT-REVIEW] '' @ t) items cs"
    using flatMap_each[of "comment_of pf file" items cs
        "\<lambda>item c. \<exists>t. reviewComment_text pf item = Inr t \<and> body c = ''[GPT-REVIEW] '' @ t"]
    by simp
next
  show "analyze_chunks pf svc prDetails file (chunk # rest) comments sent =
           analyze_chunks pf svc prDetails file rest (comments @ cs) sent'"
    using analyze_chunks_array[OF assms(3,4)] .
next
  assume a: "analyzeCode pf svc files prDetails = (Inr out, s) \<and> c \<in> set out"
  then have a1: "analyzeCode pf svc files prDetails = (Inr out, s)" and a2: "c \<in> set out" by auto
  from analyzeCode_origin[OF a1 a2] obtain fl item where
    f: "fl \<in> set files" and sg: "suggestion_of pf svc prDetails fl item"
    and c: "comment_of pf fl item = Inr [c]" by blast
  from comment_of_Inr[OF c] obtain t where
    "reviewComment_text pf item = Inr t" "body c = ''[GPT-REVIEW] '' @ t" by auto
  with f sg show "\<exists>file \<in> set files. \<exists>item t.
               suggestion_of pf svc prDetails file item \<and>
               reviewComment_text pf item = Inr t \<and>
               body c = ''[GPT-REVIEW] '' @ t" by blast
qed

theorem C10_body_prefix_witness:
  "list_all2 (\<lambda>item c. \<exists>t. reviewComment_text sample_platform item = Inr t \<and>
                            body c = ''[GPT-REVIEW] '' @ t)
     [suggestion_fix, suggestion_and]
     [\<lparr> body = ''[GPT-REVIEW] fix this'', path = ''src/a.ts'', line = Finite 12 \<rparr>,
      \<lparr> body = ''[GPT-REVIEW] and this'', path = ''src/a.ts'', line = Finite 5 \<rparr>] \<and>
   analyze_chunks sample_platform (replying reply_two) sample_pr file_a [sample_chunk] [] [] =
     (Inr [\<lparr> body = ''[GPT-REVIEW] fix this'', path = ''src/a.ts'', line = Finite 12 \<rparr>,
           \<lparr> body = ''[GPT-REVIEW] and this'', path = ''src/a.ts'', line = Finite 5 \<rparr>],
      [createPrompt sample_platform file_a sample_chunk sample_pr]) \<and>
   (\<exists>file \<in> set [file_a]. \<exists>item t.
      suggestion_of sample_platform (replying reply_two) sample_pr file item \<and>
      reviewComment_text sample_platform item = Inr t \<and>
      body \<lparr> body = ''[GPT-REVIEW] and this'', path = ''src/a.ts'', line = Finite 5 \<rparr> =
        ''[GPT-REVIEW] '' @ t)"
proof -
  have p: "to file_a = Some ''src/a.ts''" "''src/a.ts'' \<noteq> []" by (simp_all add: file_a_def)
  have run: "analyzeCode sample_platform (replying reply_two) [file_a] sample_pr =
     (Inr [\<lparr> body = ''[GPT-REVIEW] fix this'', path = ''src/a.ts'', line = Finite 12 \<rparr>,
           \<lparr> body = ''[GPT-REVIEW] and this'', path = ''src/a.ts'', line = Finite 5 \<rparr>],
      [createPrompt sample_platform file_a sample_chunk sample_pr])"
    using sample_response_two sample_comments_two
    by (simp add: analyzeCode_def file_a_def)
  from C10_body_prefix[OF p sample_response_two sample_comments_two,
      where rest = "[]" and comments = "[]" and files = "[file_a]"
        and out = "[\<lparr> body = ''[GPT-REVIEW] fix this'', path = ''src/a.ts'', line = Finite 12 \<rparr>,
                    \<lparr> body = ''[GPT-REVIEW] and this'', path = ''src/a.ts'', line = Finite 5 \<rparr>]"
        and s = "[createPrompt sample_platform file_a sample_chunk sample_pr]"
        and c = "\<lparr> body = ''[GPT-REVIEW] and this'', path = ''src/a.ts'', line = Finite 5 \<rparr>"]
    run
  show ?thesis by simp
qed

subsection \<open>The loops of analysis\<close>

text \<open>Only the target path of a file is read while its chunks are processed.\<close>

lemma createPrompt_chunks_update:
  "createPrompt pf (file\<lparr>chunks := cs\<rparr>) chunk pr = createPrompt pf file chunk pr"
  by (simp add: createPrompt_def)

lemma comment_of_chunks_update:
  "comment_of pf (file\<lparr>chunks := cs\<rparr>) = comment_of pf file"
  by (rule ext) (simp add: comment_of_def)

lemma createComment_chunks_update:
  "createComment pf (file\<lparr>chunks := cs\<rparr>) chunk v = createComment pf file chunk v"
  by (cases v) (simp_all add: comment_of_chunks_update)

lemma analyze_chunks_chunks_update:
  "analyze_chunks pf svc pr (file\<lparr>chunks := cs\<rparr>) xs acc sent =
   analyze_chunks pf svc pr file xs acc sent"
  by (induction xs arbitrary: acc sent)
     (simp_all add: createPrompt_chunks_update createComment_chunks_update
        split: prod.splits sum.splits)

lemma analyze_chunks_append:
  "analyze_chunks pf svc pr file (cs1 @ cs2) acc sent =
     (case analyze_chunks pf svc pr file cs1 acc sent of
        (Inl e, s) \<Rightarrow> (Inl e, s)
      | (Inr mid, s) \<Rightarrow> analyze_chunks pf svc pr file cs2 mid s)"
  by (induction cs1 arbitrary: acc sent) (simp_all split: prod.splits sum.splits)

lemma analyze_files_append:
  "analyze_files pf svc pr (fs1 @ fs2) acc sent =
     (case analyze_files pf svc pr fs1 acc sent of
        (Inl e, s) \<Rightarrow> (Inl e, s)
      | (Inr mid, s) \<Rightarrow> analyze_files pf svc pr fs2 mid s)"
  by (induction fs1 arbitrary: acc sent) (simp_all split: prod.splits sum.splits)

text \<open>A \<^verbatim>\<open>null\<close> result or an empty array leaves the accumulator as it is.\<close>

lemma recovered_response:
  assumes "JSON_parse pf ''[]'' = Some (JArr [])" and "recovered pf (svc sent prompt)"
  shows "getAIResponse pf svc prompt sent = (JNull, sent @ [prompt]) \<or>
         getAIResponse pf svc prompt sent = (JArr [], sent @ [prompt])"
  using assms
  by (auto simp: getAIResponse_def recovered_def reply_empty_def reply_unparseable_def
        reply_text_def split: completion.splits list.splits option.splits)

lemma analyze_chunks_skip:
  assumes "getAIResponse pf svc (createPrompt pf file chunk pr) sent = (v, sent')"
    and "v = JNull \<or> v = JArr []"
  shows "analyze_chunks pf svc pr file (chunk # rest) acc sent =
         analyze_chunks pf svc pr file rest acc sent'"
  using assms by auto

lemma analyze_chunks_null:
  assumes "fst (getAIResponse pf svc (createPrompt pf file chunk pr) sent) = JNull"
  shows "analyze_chunks pf svc pr file (chunk # rest) acc sent =
         analyze_chunks pf svc pr file rest acc (sent @ [createPrompt pf file chunk pr])"
proof -
  from assms have "getAIResponse pf svc (createPrompt pf file chunk pr) sent =
      (JNull, sent @ [createPrompt pf file chunk pr])"
    by (simp add: getAIResponse_def)
  then show ?thesis by simp
qed

lemma insert_call_snoc: "k \<le> length sent \<Longrightarrow> insert_call k p (sent @ [q]) = insert_call k p sent @ [q]"
  by (simp add: insert_call_def)

lemma length_insert_call: "k \<le> length sent \<Longrightarrow> k \<le> length (insert_call k p sent)"
  by (simp add: insert_call_def)

lemma getAIResponse_before:
  "length sent < k \<Longrightarrow>
   getAIResponse pf (without_call k p svc) prompt sent = getAIResponse pf svc prompt sent"
  by (simp add: getAIResponse_def without_call_def)

lemma getAIResponse_after:
  "k \<le> length sent \<Longrightarrow>
   getAIResponse pf svc prompt (insert_call k p sent) =
   apsnd (insert_call k p) (getAIResponse pf (without_call k p svc) prompt sent)"
  by (simp add: getAIResponse_def without_call_def insert_call_def)

lemma analyze_chunks_sent:
  "analyze_chunks pf svc pr file cs acc sent = (Inr out, sent') \<Longrightarrow>
   sent' = sent @ chunk_prompts pf pr file cs"
proof (induction cs arbitrary: acc sent)
  case Nil
  then show ?case by (simp add: chunk_prompts_def)
next
  case (Cons chunk rest)
  obtain v where g: "getAIResponse pf svc (createPrompt pf file chunk pr) sent =
      (v, sent @ [createPrompt pf file chunk pr])"
    by (simp add: getAIResponse_def)
  from Cons.prems g have "\<exists>acc'. analyze_chunks pf svc pr file rest acc'
      (sent @ [createPrompt pf file chunk pr]) = (Inr out, sent')"
    by (auto split: if_splits sum.splits)
  then obtain acc' where "analyze_chunks pf svc pr file rest acc'
      (sent @ [createPrompt pf file chunk pr]) = (Inr out, sent')" ..
  from Cons.IH[OF this] show ?case by (simp add: chunk_prompts_def)
qed

lemma analyze_files_sent:
  "analyze_files pf svc pr fs acc sent = (Inr out, sent') \<Longrightarrow>
   sent' = sent @ prompts_of pf pr fs"
proof (induction fs arbitrary: acc sent)
  case Nil
  then show ?case by (simp add: prompts_of_def)
next
  case (Cons fl rest)
  show ?case
  proof (cases "to fl = Some ''/dev/null''")
    case True
    with Cons.prems Cons.IH[of acc sent] show ?thesis by (simp add: prompts_of_def)
  next
    case False
    with Cons.prems obtain mid s1 where
      m: "analyze_chunks pf svc pr fl (chunks fl) acc sent = (Inr mid, s1)" and
      r: "analyze_files pf svc pr rest mid s1 = (Inr out, sent')"
      by (auto split: prod.splits sum.splits)
    from analyze_chunks_sent[OF m] Cons.IH[OF r] False show ?thesis
      by (simp add: prompts_of_def)
  qed
qed

lemma analyze_chunks_before:
  "length sent + length cs \<le> k \<Longrightarrow>
   analyze_chunks pf (without_call k p svc) pr file cs acc sent =
   analyze_chunks pf svc pr file cs acc sent"
proof (induction cs arbitrary: acc sent)
  case Nil
  then show ?case by simp
next
  case (Cons chunk rest)
  then have "length sent < k" by simp
  from getAIResponse_before[OF this, of pf p svc "createPrompt pf file chunk pr"]
  have g: "getAIResponse pf (without_call k p svc) (createPrompt pf file chunk pr) sent =
        getAIResponse pf svc (createPrompt pf file chunk pr) sent" .
  obtain v where v: "getAIResponse pf svc (createPrompt pf file chunk pr) sent =
      (v, sent @ [createPrompt pf file chunk pr])"
    by (simp add: getAIResponse_def)
  have "length (sent @ [createPrompt pf file chunk pr]) + length rest \<le> k"
    using Cons.prems by simp
  from Cons.IH[OF this] g v show ?case by (simp split: sum.splits)
qed

lemma length_prompts_of_Cons:
  "length (prompts_of pf pr (fl # rest)) =
     (if to fl = Some ''/dev/null'' then 0 else length (chunks fl)) + length (prompts_of pf pr rest)"
  by (simp add: prompts_of_def chunk_prompts_def)

lemma analyze_files_before:
  "length sent + length (prompts_of pf pr fs) \<le> k \<Longrightarrow>
   analyze_files pf (without_call k p svc) pr fs acc sent =
   analyze_files pf svc pr fs acc sent"
proof (induction fs arbitrary: acc sent)
  case Nil
  then show ?case by simp
next
  case (Cons fl rest)
  show ?case
  proof (cases "to fl = Some ''/dev/null''")
    case True
    with Cons.prems Cons.IH[of sent acc] show ?thesis
      by (simp add: length_prompts_of_Cons)
  next
    case False
    with Cons.prems have l: "length sent + length (chunks fl) \<le> k"
      and l2: "length sent + length (chunks fl) + length (prompts_of pf pr rest) \<le> k"
      by (simp_all add: length_prompts_of_Cons)
    note c = analyze_chunks_before[OF l, of pf p svc pr fl acc]
    obtain r s1 where a: "analyze_chunks pf svc pr fl (chunks fl) acc sent = (r, s1)"
      by (cases "analyze_chunks pf svc pr fl (chunks fl) acc sent")
    show ?thesis
    proof (cases r)
      case (Inl e)
      with False a c show ?thesis by simp
    next
      case (Inr mid)
      with a analyze_chunks_sent[of pf svc pr fl "chunks fl" acc sent mid s1]
      have "s1 = sent @ chunk_prompts pf pr fl (chunks fl)" by simp
      then have "length s1 + length (prompts_of pf pr rest) \<le> k"
        using l2 by (simp add: chunk_prompts_def)
      from Cons.IH[OF this, of mid] False a c Inr show ?thesis by simp
    qed
  qed
qed

lemma analyze_chunks_grows:
  "length sent \<le> length (snd (analyze_chunks pf svc pr file cs acc sent))"
proof (induction cs arbitrary: acc sent)
  case Nil
  then show ?case by simp
next
  case (Cons chunk rest)
  obtain v where v: "getAIResponse pf svc (createPrompt pf file chunk pr) sent =
      (v, sent @ [createPrompt pf file chunk pr])"
    by (simp add: getAIResponse_def)
  have "length sent \<le> length (snd (analyze_chunks pf svc pr file rest a
          (sent @ [createPrompt pf file chunk pr])))" for a
    using Cons.IH[of "sent @ [createPrompt pf file chunk pr]" a] by simp
  with v show ?case
    by (simp split: sum.splits)
qed

lemma analyze_chunks_after:
  "k \<le> length sent \<Longrightarrow>
   analyze_chunks pf svc pr file cs acc (insert_call k p sent) =
   apsnd (insert_call k p) (analyze_chunks pf (without_call k p svc) pr file cs acc sent)"
proof (induction cs arbitrary: acc sent)
  case Nil
  then show ?case by simp
next
  case (Cons chunk rest)
  obtain v where v: "getAIResponse pf (without_call k p svc) (createPrompt pf file chunk pr) sent =
      (v, sent @ [createPrompt pf file chunk pr])"
    by (simp add: getAIResponse_def)
  with getAIResponse_after[OF Cons.prems, of pf svc "createPrompt pf file chunk pr" p]
  have w: "getAIResponse pf svc (createPrompt pf file chunk pr) (insert_call k p sent) =
      (v, insert_call k p (sent @ [createPrompt pf file chunk pr]))" by simp
  have "k \<le> length (sent @ [createPrompt pf file chunk pr])" using Cons.prems by simp
  from Cons.IH[OF this] v w show ?case by (simp split: sum.splits)
qed

lemma analyze_files_after:
  "k \<le> length sent \<Longrightarrow>
   analyze_files pf svc pr fs acc (insert_call k p sent) =
   apsnd (insert_call k p) (analyze_files pf (without_call k p svc) pr fs acc sent)"
proof (induction fs arbitrary: acc sent)
  case Nil
  then show ?case by simp
next
  case (Cons fl rest)
  show ?case
  proof (cases "to fl = Some ''/dev/null''")
    case True
    with Cons.IH[OF Cons.prems] show ?thesis by simp
  next
    case False
    obtain r s1 where a: "analyze_chunks pf (without_call k p svc) pr fl (chunks fl) acc sent = (r, s1)"
      by (cases "analyze_chunks pf (without_call k p svc) pr fl (chunks fl) acc sent")
    with analyze_chunks_after[OF Cons.prems, of pf svc pr fl "chunks fl" acc p]
    have b: "analyze_chunks pf svc pr fl (chunks fl) acc (insert_call k p sent) = (r, insert_call k p s1)"
      by simp
    from analyze_chunks_grows[of sent pf "without_call k p svc" pr fl "chunks fl" acc] a Cons.prems
    have "k \<le> length s1" by simp
    from Cons.IH[OF this] False a b show ?thesis by (simp split: sum.splits)
  qed
qed

lemma analyze_files_null:
  assumes "to file \<noteq> Some ''/dev/null''"
    and "fst (getAIResponse pf svc (createPrompt pf file chunk pr) sent) = JNull"
  shows "analyze_files pf svc pr (file\<lparr>chunks := chunk # cs2\<rparr> # fs2) acc sent =
         analyze_files pf svc pr (file\<lparr>chunks := cs2\<rparr> # fs2) acc
           (sent @ [createPrompt pf file chunk pr])"
  using assms(1) analyze_chunks_null[OF assms(2), of cs2 acc]
  by (simp add: analyze_chunks_chunks_update del: analyze_chunks.simps)

lemma analyze_files_split:
  assumes "to file \<noteq> Some ''/dev/null''"
  shows "analyze_files pf svc pr (fs1 @ file\<lparr>chunks := cs1 @ cs\<rparr> # fs2) acc sent =
     (case analyze_files pf svc pr fs1 acc sent of
        (Inl e, s) \<Rightarrow> (Inl e, s)
      | (Inr mid, s) \<Rightarrow>
          (case analyze_chunks pf svc pr file cs1 mid s of
             (Inl e, s') \<Rightarrow> (Inl e, s')
           | (Inr mid', s') \<Rightarrow>
               analyze_files pf svc pr (file\<lparr>chunks := cs\<rparr> # fs2) mid' s'))"
  using assms
  by (auto simp: analyze_files_append analyze_chunks_append analyze_chunks_chunks_update
           split: prod.splits sum.splits)

lemma analyze_files_without_call:
  assumes nd: "to file \<noteq> Some ''/dev/null''"
    and null: "fst (getAIResponse pf svc (createPrompt pf file chunk pr)
                 (prompts_of pf pr fs1 @ chunk_prompts pf pr file cs1)) = JNull"
  shows "fst (analyze_files pf svc pr (fs1 @ file\<lparr>chunks := cs1 @ chunk # cs2\<rparr> # fs2) [] []) =
         fst (analyze_files pf
                (without_call (length (prompts_of pf pr fs1 @ chunk_prompts pf pr file cs1))
                   (createPrompt pf file chunk pr) svc)
                pr (fs1 @ file\<lparr>chunks := cs1 @ cs2\<rparr> # fs2) [] [])"
proof -
  let ?H = "prompts_of pf pr fs1 @ chunk_prompts pf pr file cs1"
  let ?k = "length ?H"
  let ?p = "createPrompt pf file chunk pr"
  let ?svc' = "without_call ?k ?p svc"
  have b1: "analyze_files pf ?svc' pr fs1 [] [] = analyze_files pf svc pr fs1 [] []"
    by (rule analyze_files_before) simp
  obtain r s where a: "analyze_files pf svc pr fs1 [] [] = (r, s)"
    by (cases "analyze_files pf svc pr fs1 [] []")
  show ?thesis
  proof (cases r)
    case (Inl e)
    with a b1 show ?thesis by (simp add: analyze_files_split[OF nd])
  next
    case (Inr mid)
    with a analyze_files_sent[of pf svc pr fs1 "[]" "[]" mid s]
    have s: "s = prompts_of pf pr fs1" by simp
    have b2: "analyze_chunks pf ?svc' pr file cs1 mid s = analyze_chunks pf svc pr file cs1 mid s"
      by (rule analyze_chunks_before) (simp add: s chunk_prompts_def)
    obtain r2 s2 where a2: "analyze_chunks pf svc pr file cs1 mid s = (r2, s2)"
      by (cases "analyze_chunks pf svc pr file cs1 mid s")
    show ?thesis
    proof (cases r2)
      case (Inl e)
      with a b1 a2 b2 Inr show ?thesis by (simp add: analyze_files_split[OF nd])
    next
      case inr2: (Inr mid2)
      with a2 analyze_chunks_sent[of pf svc pr "file" cs1 mid s mid2 s2] s
      have s2: "s2 = ?H" by simp
      have "analyze_files pf svc pr (file\<lparr>chunks := chunk # cs2\<rparr> # fs2) mid2 ?H =
            analyze_files pf svc pr (file\<lparr>chunks := cs2\<rparr> # fs2) mid2 (?H @ [?p])"
        by (rule analyze_files_null[OF nd null])
      also have "?H @ [?p] = insert_call ?k ?p ?H" by (simp add: insert_call_def)
      also have "analyze_files pf svc pr (file\<lparr>chunks := cs2\<rparr> # fs2) mid2 (insert_call ?k ?p ?H) =
            apsnd (insert_call ?k ?p) (analyze_files pf ?svc' pr (file\<lparr>chunks := cs2\<rparr> # fs2) mid2 ?H)"
        by (rule analyze_files_after) simp
      finally have "fst (analyze_files pf svc pr (file\<lparr>chunks := chunk # cs2\<rparr> # fs2) mid2 ?H) =
            fst (analyze_files pf ?svc' pr (file\<lparr>chunks := cs2\<rparr> # fs2) mid2 ?H)"
        by simp
      with a b1 a2 b2 Inr inr2 s2 show ?thesis
        by (simp add: analyze_files_split[OF nd])
    qed
  qed
qed

text \<open>For a service that ignores its history no answer changes, and the run without
  the chunk is the run with the same service.\<close>

lemma analyze_files_without_call_history_free:
  assumes "to file \<noteq> Some ''/dev/null''" and "history_free svc"
    and "fst (getAIResponse pf svc (createPrompt pf file chunk pr) []) = JNull"
  shows "fst (analyze_files pf svc pr (fs1 @ file\<lparr>chunks := cs1 @ chunk # cs2\<rparr> # fs2) [] []) =
         fst (analyze_files pf svc pr (fs1 @ file\<lparr>chunks := cs1 @ cs2\<rparr> # fs2) [] [])"
proof -
  have e: "svc a q = svc [] q" for a q
    using assms(2) unfolding history_free_def by blast
  have w: "without_call k p svc = svc" for k p
  proof (intro ext)
    fix a q
    show "without_call k p svc a q = svc a q"
      using e[of "insert_call k p a" q] e[of a q] by (simp add: without_call_def)
  qed
  have "fst (getAIResponse pf svc (createPrompt pf file chunk pr)
      (prompts_of pf pr fs1 @ chunk_prompts pf pr file cs1)) = JNull"
    using assms(3)
      e[of "prompts_of pf pr fs1 @ chunk_prompts pf pr file cs1" "createPrompt pf file chunk pr"]
    by (simp add: getAIResponse_def)
  from analyze_files_without_call[OF assms(1) this, of cs2 fs2] show ?thesis
    by (simp only: w)
qed

subsection \<open>Review Client\<close>

text \<open>
  The replies the handler of \<^verbatim>\<open>getAIResponse\<close> covers: when the service call for a
  chunk fails or returns no choice, or its reply is empty or is rejected by
  \<^verbatim>\<open>JSON.parse\<close> (which reads \<^verbatim>\<open>[]\<close> as the empty array), the chunk adds no
  comment and raises no exception, and the run goes on with the remaining chunks
  of the file and the remaining files.
\<close>

lemma recovered_chunk_skipped:
  assumes "JSON_parse pf ''[]'' = Some (JArr [])"
    and "recovered pf (svc sent (createPrompt pf file chunk prDetails))"
    and "to file \<noteq> Some ''/dev/null''"
    and "chunks file = chunk # rest"
  shows "(fst (getAIResponse pf svc (createPrompt pf file chunk prDetails) sent) = JNull \<or>
          fst (getAIResponse pf svc (createPrompt pf file chunk prDetails) sent) = JArr []) \<and>
         analyze_files pf svc prDetails (file # files) comments sent =
         analyze_files pf svc prDetails (file\<lparr>chunks := rest\<rparr> # files) comments
           (sent @ [createPrompt pf file chunk prDetails])"
proof -
  from recovered_response[of pf svc sent "createPrompt pf file chunk prDetails"] assms(1,2)
  have r: "getAIResponse pf svc (createPrompt pf file chunk prDetails) sent =
             (JNull, sent @ [createPrompt pf file chunk prDetails]) \<or>
           getAIResponse pf svc (createPrompt pf file chunk prDetails) sent =
             (JArr [], sent @ [createPrompt pf file chunk prDetails])"
    by simp
  then have "analyze_chunks pf svc prDetails file (chunk # rest) comments sent =
        analyze_chunks pf svc prDetails file rest comments
          (sent @ [createPrompt pf file chunk prDetails])"
    using analyze_chunks_skip by blast
  with assms(3,4) r show ?thesis by (auto simp: analyze_chunks_chunks_update)
qed

text \<open>
  C1. The claim does not hold of the source for a reply that is JSON of another
  shape. The reply \<^verbatim>\<open>{}\<close> parses, so \<^verbatim>\<open>getAIResponse\<close> returns the object, which
  is neither an array of suggestions nor \<^verbatim>\<open>null\<close>; \<^verbatim>\<open>createComment\<close> throws a
  \<^verbatim>\<open>TypeError\<close> on it, the second file is never analysed, and \<^verbatim>\<open>main\<close> ends with
  that exception and no review. On the same two files a reply that is not JSON and
  a failed call are recovered as the claim says: no comment, no exception, both
  chunks analysed.
\<close>

theorem C1_wrong_shape_aborts:
  "fst (getAIResponse sample_platform (replying ''{}'')
          (createPrompt sample_platform file_a sample_chunk sample_pr) []) = JObj [] \<and>
   analyzeCode sample_platform (replying ''{}'') [file_a, file_a] sample_pr =
     (Inl TypeError, [createPrompt sample_platform file_a sample_chunk sample_pr]) \<and>
   outcome (main sample_platform (sample_env (replying ''{}''))) = Some TypeError \<and>
   submitted (main sample_platform (sample_env (replying ''{}''))) = [] \<and>
   analyzeCode sample_platform (replying ''Looks good to me!'') [file_a, file_a] sample_pr =
     (Inr [], [createPrompt sample_platform file_a sample_chunk sample_pr,
               createPrompt sample_platform file_a sample_chunk sample_pr]) \<and>
   analyzeCode sample_platform failing [file_a, file_a] sample_pr =
     (Inr [], [createPrompt sample_platform file_a sample_chunk sample_pr,
               createPrompt sample_platform file_a sample_chunk sample_pr])"
  by (simp add: analyzeCode_def file_a_def getAIResponse_def replying_def failing_def
        reply_text_def trim_def is_space_def sample_platform_def sample_JSON_parse_def
        reply_fix_def reply_negative_def reply_two_def
        main_def analysis_def getPRDetails_def sample_env_def sample_event_def fetch_diff_def
        getDiff_def sample_diff_def filteredDiff_def excludePatterns_def nullish_or_def
        file_x_md_def thrown_def)

text \<open>
  C6. Let the Review Client return \<^verbatim>\<open>null\<close> for a chunk of a file that is not
  deleted. Then analysis goes on with the remaining chunks of the file and the
  remaining files exactly as it would without the chunk: the accumulator is the
  same and only the list of prompts sent has the chunk's prompt more. And the whole
  run returns what the run on the diff without that chunk returns when the service
  gives the other chunks the same answers; here \<open>sent\<close> is the list of prompts of
  the chunks before it, at which the run reaches the chunk.
\<close>

theorem C6_null_result:
  assumes "to file \<noteq> Some ''/dev/null''"
    and "fst (getAIResponse pf svc (createPrompt pf file chunk prDetails) sent) = JNull"
  shows "analyze_files pf svc prDetails (file\<lparr>chunks := chunk # cs2\<rparr> # fs2) comments sent =
           analyze_files pf svc prDetails (file\<lparr>chunks := cs2\<rparr> # fs2) comments
             (sent @ [createPrompt pf file chunk prDetails]) \<and>
         (sent = prompts_of pf prDetails fs1 @ chunk_prompts pf prDetails file cs1 \<longrightarrow>
            fst (analyzeCode pf svc (fs1 @ file\<lparr>chunks := cs1 @ chunk # cs2\<rparr> # fs2) prDetails) =
            fst (analyzeCode pf
                   (without_call (length sent) (createPrompt pf file chunk prDetails) svc)
                   (fs1 @ file\<lparr>chunks := cs1 @ cs2\<rparr> # fs2) prDetails))"
proof (intro conjI impI)
  show "analyze_files pf svc prDetails (file\<lparr>chunks := chunk # cs2\<rparr> # fs2) comments sent =
           analyze_files pf svc prDetails (file\<lparr>chunks := cs2\<rparr> # fs2) comments
             (sent @ [createPrompt pf file chunk prDetails])"
    by (rule analyze_files_null[OF assms])
next
  assume s: "sent = prompts_of pf prDetails fs1 @ chunk_prompts pf prDetails file cs1"
  with assms(2) have "fst (getAIResponse pf svc (createPrompt pf file chunk prDetails)
      (prompts_of pf prDetails fs1 @ chunk_prompts pf prDetails file cs1)) = JNull" by simp
  from analyze_files_without_call[OF assms(1) this, of cs2 fs2] s
  show "fst (analyzeCode pf svc (fs1 @ file\<lparr>chunks := cs1 @ chunk # cs2\<rparr> # fs2) prDetails) =
        fst (analyzeCode pf
               (without_call (length sent) (createPrompt pf file chunk prDetails) svc)
               (fs1 @ file\<lparr>chunks := cs1 @ cs2\<rparr> # fs2) prDetails)"
    by (simp add: analyzeCode_def)
qed

theorem C6_null_result_witness:
  "fst (getAIResponse sample_platform failing_once
          (createPrompt sample_platform file_a other_chunk sample_pr) []) = JNull \<and>
   analyze_files sample_platform failing_once sample_pr
       (file_a\<lparr>chunks := other_chunk # [sample_chunk]\<rparr> # []) [] [] =
     analyze_files sample_platform failing_once sample_pr
       (file_a\<lparr>chunks := [sample_chunk]\<rparr> # []) []
       ([] @ [createPrompt sample_platform file_a other_chunk sample_pr]) \<and>
   fst (analyzeCode sample_platform failing_once
          ([] @ file_a\<lparr>chunks := [] @ other_chunk # [sample_chunk]\<rparr> # []) sample_pr) =
     Inr [\<lparr> body = ''[GPT-REVIEW] fix this'', path = ''src/a.ts'', line = Finite 12 \<rparr>] \<and>
   fst (analyzeCode sample_platform
          (without_call 0 (createPrompt sample_platform file_a other_chunk sample_pr) failing_once)
          ([] @ file_a\<lparr>chunks := [] @ [sample_chunk]\<rparr> # []) sample_pr) =
     Inr [\<lparr> body = ''[GPT-REVIEW] fix this'', path = ''src/a.ts'', line = Finite 12 \<rparr>]"
proof -
  have d: "to file_a \<noteq> Some ''/dev/null''" by (simp add: file_a_def)
  have n: "fst (getAIResponse sample_platform failing_once
          (createPrompt sample_platform file_a other_chunk sample_pr) []) = JNull"
    by (simp add: getAIResponse_def failing_once_def)
  have h: "[] = prompts_of sample_platform sample_pr [] @
                chunk_prompts sample_platform sample_pr file_a []"
    by (simp add: prompts_of_def chunk_prompts_def)
  have r: "fst (analyzeCode sample_platform failing_once
          ([] @ file_a\<lparr>chunks := [] @ other_chunk # [sample_chunk]\<rparr> # []) sample_pr) =
     Inr [\<lparr> body = ''[GPT-REVIEW] fix this'', path = ''src/a.ts'', line = Finite 12 \<rparr>]"
    by (simp add: analyzeCode_def file_a_def getAIResponse_def failing_once_def
        reply_text_def trim_def is_space_def reply_fix_def sample_platform_def
        sample_JSON_parse_def suggestion_fix_def comment_of_def sample_StringToNumber_def)
  from C6_null_result[OF d n, of "[sample_chunk]" "[]" "[]" "[]" "[]"] h n r
  show ?thesis by simp
qed

subsection \<open>Paths and lines of comments\<close>




text \<open>
  C5. When every file of the diff has the target path \<^verbatim>\<open>/dev/null\<close>, analysis
  returns no comment and sends no prompt.
\<close>

theorem C5_deleted_only:
  assumes "\<forall>file \<in> set files. to file = Some ''/dev/null''"
  shows "analyzeCode pf svc files prDetails = (Inr [], [])"
proof -
  have "analyze_files pf svc prDetails files acc sent = (Inr acc, sent)" for acc sent
    using assms by (induction files) simp_all
  then show ?thesis by (simp add: analyzeCode_def)
qed

theorem C5_deleted_only_witness:
  "to file_deleted = Some ''/dev/null'' \<and> chunks file_deleted = [sample_chunk] \<and>
   analyzeCode sample_platform (replying reply_fix) [file_deleted, file_deleted] sample_pr = (Inr [], [])"
  using C5_deleted_only[of "[file_deleted, file_deleted]" sample_platform "replying reply_fix" sample_pr]
  by (simp add: file_deleted_def)

subsection \<open>Orchestrator\<close>

lemma analysis_Analyzed:
  assumes "analysis pf e = Analyzed prDetails comments sent"
  shows "\<exists>parsedDiff. analyzeCode pf (completions_create e)
            (filteredDiff pf (excludePatterns e) parsedDiff) prDetails =
          (Inr comments, sent)"
  using assms
  by (auto simp: analysis_def split: sum.splits fetched.splits option.splits if_splits prod.splits)

lemma analysis_Ended:
  assumes "analysis pf e = Ended r"
  shows "submitted r = []"
  using assms
  by (auto simp: analysis_def thrown_def returned_def
           split: sum.splits fetched.splits option.splits if_splits prod.splits)

lemma sample_stage:
  assumes "analyzeCode sample_platform svc [file_a] sample_pr = (Inr comments, sent)"
  shows "analysis sample_platform (sample_env svc) = Analyzed sample_pr comments sent"
proof -
  have p: "getPRDetails (sample_env svc) = Inr sample_pr"
    by (simp add: getPRDetails_def sample_env_def sample_event_def sample_pr_def nullish_or_def)
  have d: "fetch_diff (sample_env svc) sample_pr sample_event = Inr (Diff (Some sample_diff))"
    by (simp add: fetch_diff_def getDiff_def sample_env_def sample_event_def)
  have x: "excludePatterns (sample_env svc) = [''**/*.json'', ''**/*.md'']"
    by (simp add: excludePatterns_def sample_env_def trim_def is_space_def)
  have q: "parseDiff sample_platform sample_diff = Inr [file_x_md, file_a]"
    by (simp add: sample_platform_def)
  have f: "filteredDiff sample_platform [''**/*.json'', ''**/*.md''] [file_x_md, file_a] = [file_a]"
    by (simp add: filteredDiff_def sample_platform_def file_x_md_def file_a_def nullish_or_def)
  have n: "sample_diff \<noteq> []" by (simp add: sample_diff_def)
  have e: "read_event (sample_env svc) = Inr sample_event"
      "completions_create (sample_env svc) = svc"
    by (simp_all add: sample_env_def)
  show ?thesis
    by (simp add: analysis_def p d x q f n e assms)
qed

lemma sample_analysis:
  "analysis sample_platform (sample_env (replying reply_fix)) =
     Analyzed sample_pr
       [\<lparr> body = ''[GPT-REVIEW] fix this'', path = ''src/a.ts'', line = Finite 12 \<rparr>]
       [createPrompt sample_platform file_a sample_chunk sample_pr]"
  by (rule sample_stage [OF sample_run_fix])

lemma sample_analysis_failing:
  "analysis sample_platform (sample_env failing) =
     Analyzed sample_pr [] [createPrompt sample_platform file_a sample_chunk sample_pr]"
  by (rule sample_stage)
     (simp add: analyzeCode_def file_a_def getAIResponse_def failing_def)

text \<open>
  C4. No comment accumulated by a run has a path that matches one of the exclude
  patterns: the patterns are applied to the parsed diff before analysis, and a
  comment's path is the target path of a file that analysis was given.
\<close>

theorem C4_excluded_paths:
  assumes "analysis pf e = Analyzed prDetails comments sent"
    and "c \<in> set comments"
    and "pattern \<in> set (excludePatterns e)"
  shows "\<not> minimatch pf (path c) pattern"
proof -
  from analysis_Analyzed[OF assms(1)] obtain parsedDiff where
    a: "analyzeCode pf (completions_create e)
            (filteredDiff pf (excludePatterns e) parsedDiff) prDetails =
          (Inr comments, sent)" by blast
  from analyzeCode_origin[OF a assms(2)] obtain fl item where
    f: "fl \<in> set (filteredDiff pf (excludePatterns e) parsedDiff)"
    and c: "comment_of pf fl item = Inr [c]" by blast
  from comment_of_Inr[OF c] have "to fl = Some (path c)" by auto
  then have "nullish_or (to fl) [] = path c"
    by (simp add: nullish_or_def)
  moreover from f assms(3) have "\<not> minimatch pf (nullish_or (to fl) []) pattern"
    by (auto simp: filteredDiff_def list_ex_iff)
  ultimately show ?thesis by simp
qed

theorem C4_excluded_paths_witness:
  "''**/*.md'' \<in> set (excludePatterns (sample_env (replying reply_fix))) \<and>
   \<not> minimatch sample_platform
       (path \<lparr> body = ''[GPT-REVIEW] fix this'', path = ''src/a.ts'', line = Finite 12 \<rparr>)
       ''**/*.md''"
proof -
  have x: "''**/*.md'' \<in> set (excludePatterns (sample_env (replying reply_fix)))"
    by (simp add: excludePatterns_def sample_env_def trim_def is_space_def)
  from C4_excluded_paths[OF sample_analysis _ x,
      of "\<lparr> body = ''[GPT-REVIEW] fix this'', path = ''src/a.ts'', line = Finite 12 \<rparr>"] x
  show ?thesis by simp
qed

text \<open>
  C8. When analysis has returned a non-empty list of comments, \<^verbatim>\<open>main\<close> makes
  exactly one review request, carrying all of them and the event \<^verbatim>\<open>COMMENT\<close>; when
  the list is empty it makes none and ends without an exception. A run that ends
  before that point makes no review request either.
\<close>

theorem C8_single_submission:
  "(case analysis pf e of
      Ended r \<Rightarrow> main pf e = r \<and> submitted (main pf e) = []
    | Analyzed prDetails comments sent \<Rightarrow>
        if comments \<noteq> [] then
          submitted (main pf e) =
            [\<lparr> review_owner = owner prDetails, review_repo = repo prDetails,
                review_pull_number = pull_number prDetails,
                review_comments = comments, review_event = ''COMMENT'' \<rparr>]
        else submitted (main pf e) = [] \<and> outcome (main pf e) = None)"
proof (cases "analysis pf e")
  case (Ended r)
  with analysis_Ended[OF Ended] show ?thesis by (simp add: main_def)
next
  case (Analyzed prDetails comments sent)
  then show ?thesis
    by (simp add: main_def createReviewComment_def returned_def Let_def)
qed

theorem C8_single_submission_witness:
  "submitted (main sample_platform (sample_env (replying reply_fix))) =
     [\<lparr> review_owner = ''octo'', review_repo = ''demo'', review_pull_number = 7,
         review_comments =
           [\<lparr> body = ''[GPT-REVIEW] fix this'', path = ''src/a.ts'', line = Finite 12 \<rparr>],
         review_event = ''COMMENT'' \<rparr>] \<and>
   submitted (main sample_platform (sample_env failing)) = [] \<and>
   outcome (main sample_platform (sample_env failing)) = None"
  using C8_single_submission[of sample_platform "sample_env (replying reply_fix)"]
    C8_single_submission[of sample_platform "sample_env failing"]
  by (simp add: sample_analysis sample_analysis_failing sample_pr_def)

text \<open>
  C9. \<^verbatim>\<open>getPRDetails\<close> returns the title and the body of the hosting API's answer,
  with the empty string in place of a missing (\<^verbatim>\<open>null\<close>) title or body.
\<close>

theorem C9_title_description:
  assumes "read_event e = Inr ev"
    and "pulls_get e (repository_owner_login ev) (repository_name ev) (number ev) = Inr prResponse"
  shows "getPRDetails e =
           Inr \<lparr> owner = repository_owner_login ev, repo = repository_name ev,
                 pull_number = number ev,
                 title = (case data_title prResponse of None \<Rightarrow> [] | Some t \<Rightarrow> t),
                 description = (case data_body prResponse of None \<Rightarrow> [] | Some b \<Rightarrow> b) \<rparr>"
  using assms by (simp add: getPRDetails_def nullish_or_def)

theorem C9_title_description_witness:
  "read_event (sample_env failing) = Inr sample_event \<and>
   getPRDetails (sample_env failing) =
     Inr \<lparr> owner = ''octo'', repo = ''demo'', pull_number = 7,
           title = ''Add a'', description = [] \<rparr>"
  using C9_title_description[of "sample_env failing" sample_event
      "\<lparr> data_title = Some ''Add a'', data_body = None \<rparr>"]
  by (simp add: sample_env_def sample_event_def)

subsection \<open>Prompt Builder\<close>

lemma render_change_shown:
  assumes "\<forall>n. change_ln c = Some n \<longrightarrow> number_truthy n"
  shows "render_change pf c = NumberToString pf (shown_number c) @ '' '' @ change_content c"
  using assms by (cases c) (simp_all add: render_change_def change_line_number_def template_number_def)

text \<open>
  C7, as amended. For a file with a target path, the prompt is the fixed text with
  the file path, the title and the description of the pull request set in
  unchanged, then the chunk's content, a line break, and one line per change,
  separated by line breaks: the line number, a space, the content. The line number
  is the own number of an added or a deleted line and the new-side number of a
  context line. This is stated for chunks whose added and deleted lines have a
  number other than 0 (and \<^verbatim>\<open>NaN\<close>), as the lines of a diff have.
\<close>

theorem C7_prompt:
  assumes "to file = Some p"
    and "\<forall>c \<in> set (changes chunk). \<forall>n. change_ln c = Some n \<longrightarrow> number_truthy n"
  shows "createPrompt pf file chunk prDetails =
           prompt_part1 @ p @
           prompt_part2 @ title prDetails @
           prompt_part3 @ description prDetails @
           prompt_part4 @ chunk_content chunk @ ''\<newline>'' @
           join ''\<newline>''
             (map (\<lambda>c. NumberToString pf (shown_number c) @ '' '' @ change_content c)
                (changes chunk)) @
           prompt_part5"
proof -
  have eq: "map (render_change pf) (changes chunk) =
        map (\<lambda>c. NumberToString pf (shown_number c) @ '' '' @ change_content c) (changes chunk)"
    using assms(2) by (intro map_cong refl render_change_shown) blast
  show ?thesis
    unfolding createPrompt_def eq by (simp add: template_string_def assms(1))
qed

theorem C7_prompt_witness:
  "to file_a = Some ''src/a.ts'' \<and>
   createPrompt sample_platform file_a context_chunk sample_pr =
     prompt_part1 @ ''src/a.ts'' @ prompt_part2 @ ''Add a'' @ prompt_part3 @ [] @
     prompt_part4 @ ''@@ -3 +4,2 @@'' @ ''\<newline>'' @
     ''4   return a;'' @ ''\<newline>'' @ ''5 +  return b;'' @ prompt_part5"
  using C7_prompt[of file_a "''src/a.ts''" context_chunk sample_platform sample_pr]
  by (simp add: file_a_def context_chunk_def context_change_def sample_pr_def
        sample_platform_def sample_NumberToString_def)

text \<open>
  As stated, with the old-side number taken whenever the change has one, the claim
  fails for every context line: a context line has both numbers and the source
  prints the new-side one. For line 3 of the old file, which is line 4 of the new
  one, the prompt has \<^verbatim>\<open>4\<close> where the claim has \<^verbatim>\<open>3\<close>.
\<close>

theorem C7_counterexample:
  "createPrompt sample_platform file_a context_chunk sample_pr =
     prompt_part1 @ ''src/a.ts'' @ prompt_part2 @ ''Add a'' @ prompt_part3 @ [] @
     prompt_part4 @ ''@@ -3 +4,2 @@'' @ ''\<newline>'' @
     ''4   return a;'' @ ''\<newline>'' @ ''5 +  return b;'' @ prompt_part5 \<and>
   old_side context_change = Some (Finite 3) \<and>
   template_number sample_platform (claimed_line_number context_change) @ '' '' @
     change_content context_change = ''3   return a;''"
  by (simp add: createPrompt_def render_change_def change_line_number_def
        claimed_line_number_def context_chunk_def context_change_def template_number_def
        template_string_def file_a_def sample_pr_def sample_platform_def
        sample_NumberToString_def)

end
